theory Spec2Isabelle
  imports Complex_Main "HOL-Library.Multiset"
begin

section \<open>Python values\<close>

text \<open>
  The recommender works on untyped JSON data (\<^verbatim>\<open>Dict[str, Any]\<close>): profiles, test
  records and catalogue entries are dictionaries whose values may have any shape.
  A JSON value is modelled as it arrives from the backend.  Python's \<^verbatim>\<open>int\<close> and
  \<^verbatim>\<open>float\<close> are both \<open>JNum\<close>, carried by an exact real number: rounding of
  floating-point arithmetic is not part of the model.  A dictionary is an association
  list in which the first binding of a key is the one that counts.
\<close>

datatype json =
    JNull
  | JBool bool
  | JNum real
  | JStr string
  | JList "json list"
  | JDict "(string \<times> json) list"

type_synonym pydict = "(string \<times> json) list"

text \<open>The exceptions the modelled code can raise.\<close>

datatype py_error = TypeError | KeyError | AttributeError | ZeroDivisionError

text \<open>\<^verbatim>\<open>bool\<close> is a subclass of \<^verbatim>\<open>int\<close>: \<^verbatim>\<open>True\<close> counts as 1 in arithmetic.\<close>

fun num_of :: "json \<Rightarrow> real option" where
  "num_of (JNum r) = Some r"
| "num_of (JBool b) = Some (if b then 1 else 0)"
| "num_of JNull = None"
| "num_of (JStr s) = None"
| "num_of (JList xs) = None"
| "num_of (JDict d) = None"

text \<open>Truth value of an object, as \<^verbatim>\<open>if not x\<close> tests it.\<close>

fun truthy :: "json \<Rightarrow> bool" where
  "truthy JNull = False"
| "truthy (JBool b) = b"
| "truthy (JNum r) = (r \<noteq> 0)"
| "truthy (JStr s) = (s \<noteq> [])"
| "truthy (JList xs) = (xs \<noteq> [])"
| "truthy (JDict d) = (d \<noteq> [])"

text \<open>Lists and dictionaries cannot be dictionary keys.\<close>

fun hashable :: "json \<Rightarrow> bool" where
  "hashable (JList xs) = False"
| "hashable (JDict d) = False"
| "hashable JNull = True"
| "hashable (JBool b) = True"
| "hashable (JNum r) = True"
| "hashable (JStr s) = True"

definition dict_keys :: "pydict \<Rightarrow> string list" where
  "dict_keys d = remdups (map fst d)"

text \<open>\<^verbatim>\<open>len(d)\<close> of a dictionary: the number of its keys.\<close>

definition dict_len :: "pydict \<Rightarrow> nat" where
  "dict_len d = length (dict_keys d)"

text \<open>\<^verbatim>\<open>d.get(k, default)\<close>.\<close>

definition py_get :: "pydict \<Rightarrow> string \<Rightarrow> json \<Rightarrow> json" where
  "py_get d k dflt = (case map_of d k of None \<Rightarrow> dflt | Some v \<Rightarrow> v)"

text \<open>\<^verbatim>\<open>x[k]\<close> with a string key: only a dictionary can be subscripted so.\<close>

fun py_subscript :: "json \<Rightarrow> string \<Rightarrow> py_error + json" where
  "py_subscript (JDict d) k = (case map_of d k of None \<Rightarrow> Inl KeyError | Some v \<Rightarrow> Inr v)"
| "py_subscript JNull k = Inl TypeError"
| "py_subscript (JBool b) k = Inl TypeError"
| "py_subscript (JNum r) k = Inl TypeError"
| "py_subscript (JStr s) k = Inl TypeError"
| "py_subscript (JList xs) k = Inl TypeError"

text \<open>
  \<^verbatim>\<open>for item in x\<close>: a list yields its elements, a string its characters, a
  dictionary its keys; anything else is not iterable.
\<close>

fun py_iter :: "json \<Rightarrow> py_error + json list" where
  "py_iter (JList xs) = Inr xs"
| "py_iter (JStr s) = Inr (map (\<lambda>c. JStr [c]) s)"
| "py_iter (JDict d) = Inr (map JStr (dict_keys d))"
| "py_iter JNull = Inl TypeError"
| "py_iter (JBool b) = Inl TypeError"
| "py_iter (JNum r) = Inl TypeError"

lemma size_map_of:
  "map_of d k = Some v \<Longrightarrow> size v < Suc (size_list (size_prod (\<lambda>x. 0) size) d)"
  by (induction d) (auto split: if_splits)

text \<open>
  Python's \<^verbatim>\<open>==\<close> on JSON values: numbers and booleans compare by value
  (\<^verbatim>\<open>True == 1\<close>), lists element by element, dictionaries key by key whatever the
  order, and values of different kinds are unequal.
\<close>

function (sequential) py_eq :: "json \<Rightarrow> json \<Rightarrow> bool" where
  "py_eq JNull JNull = True"
| "py_eq (JStr s) (JStr t) = (s = t)"
| "py_eq (JList xs) (JList ys) = list_all2 py_eq xs ys"
| "py_eq (JDict a) (JDict b) =
     (dict_len a = dict_len b \<and>
      list_all (\<lambda>k. case map_of a k of None \<Rightarrow> False
                     | Some v \<Rightarrow> (case map_of b k of None \<Rightarrow> False | Some w \<Rightarrow> py_eq v w))
               (dict_keys a))"
| "py_eq a b = (case num_of a of None \<Rightarrow> False
                | Some x \<Rightarrow> (case num_of b of None \<Rightarrow> False | Some y \<Rightarrow> x = y))"
  by pat_completeness auto
termination
proof (relation "measure (\<lambda>(a, b). size a)", goal_cases)
  case 1
  show ?case by simp
next
  case (2 xs ys x y)
  then show ?case by (induction xs) auto
next
  case (3 a b k v w)
  then show ?case by (simp add: size_map_of)
qed

text \<open>\<^verbatim>\<open>x in xs\<close> for a list \<open>xs\<close>.\<close>

definition py_in :: "json \<Rightarrow> json list \<Rightarrow> bool" where
  "py_in x xs = list_ex (py_eq x) xs"

text \<open>\<^verbatim>\<open>xs[:n]\<close>: a negative \<open>n\<close> counts from the end.\<close>

definition py_slice :: "int \<Rightarrow> 'a list \<Rightarrow> 'a list" where
  "py_slice n xs = (if 0 \<le> n then take (nat n) xs else take (length xs - nat (- n)) xs)"

text \<open>
  \<^verbatim>\<open>xs.sort(key=f, reverse=True)\<close>: descending, and stable (elements with equal keys
  keep their order).
\<close>

definition sort_desc :: "('a \<Rightarrow> real) \<Rightarrow> 'a list \<Rightarrow> 'a list" where
  "sort_desc f xs = sort_key (\<lambda>x. - f x) xs"

text \<open>\<^verbatim>\<open>abs(a - b)\<close>: subtraction is defined on numbers only.\<close>

definition py_abs_diff :: "json \<Rightarrow> json \<Rightarrow> py_error + real" where
  "py_abs_diff a b =
     (case num_of a of None \<Rightarrow> Inl TypeError
      | Some x \<Rightarrow> (case num_of b of None \<Rightarrow> Inl TypeError | Some y \<Rightarrow> Inr \<bar>x - y\<bar>))"

text \<open>A list comprehension whose element expression may raise: the first error wins.\<close>

fun err_map :: "('a \<Rightarrow> py_error + 'b) \<Rightarrow> 'a list \<Rightarrow> py_error + 'b list" where
  "err_map f [] = Inr []"
| "err_map f (x # xs) =
     (case f x of Inl e \<Rightarrow> Inl e
      | Inr y \<Rightarrow> (case err_map f xs of Inl e \<Rightarrow> Inl e | Inr ys \<Rightarrow> Inr (y # ys)))"

section \<open>similarity.py\<close>

definition required_fields :: "string list" where
  "required_fields =
     [''target'', ''averageListeningScore'', ''averageReadingScore'', ''averageTotalScore'']"

definition missing_fields :: "pydict \<Rightarrow> string list" where
  "missing_fields u = filter (\<lambda>field. map_of u field = None) required_fields"

text \<open>The body of the \<^verbatim>\<open>try\<close> block of \<^verbatim>\<open>calculate_user_similarity\<close>.\<close>

definition similarity_try :: "pydict \<Rightarrow> pydict \<Rightarrow> py_error + real" where
  "similarity_try user1 user2 =
     (if missing_fields user1 \<noteq> [] \<or> missing_fields user2 \<noteq> [] then Inr 0.1
      else
       case py_abs_diff (py_get user1 ''target'' (JNum 0)) (py_get user2 ''target'' (JNum 0)) of
         Inl e \<Rightarrow> Inl e
       | Inr target_diff \<Rightarrow>
       (case py_abs_diff (py_get user1 ''averageListeningScore'' (JNum 0))
                         (py_get user2 ''averageReadingScore'' (JNum 0)) of
         Inl e \<Rightarrow> Inl e
       | Inr listening_diff \<Rightarrow>
       (case py_abs_diff (py_get user1 ''averageReadingScore'' (JNum 0))
                         (py_get user2 ''averageListeningScore'' (JNum 0)) of
         Inl e \<Rightarrow> Inl e
       | Inr reading_diff \<Rightarrow>
       (case py_abs_diff (py_get user1 ''averageTotalScore'' (JNum 0))
                         (py_get user2 ''averageTotalScore'' (JNum 0)) of
         Inl e \<Rightarrow> Inl e
       | Inr total_diff \<Rightarrow>
           (let max_target_diff = 500;
                max_score_diff = 300;
                normalized_diffs =
                  [min 1 (target_diff / max_target_diff),
                   min 1 (listening_diff / max_score_diff),
                   min 1 (reading_diff / max_score_diff),
                   min 1 (total_diff / max_score_diff)];
                avg_normalized_diff = sum_list normalized_diffs / real (length normalized_diffs);
                similarity = 1 - avg_normalized_diff
            in Inr (max 0 (min 1 similarity)))))))"

text \<open>\<^verbatim>\<open>except Exception\<close>: any error of the body gives 0.0.\<close>

definition calculate_user_similarity :: "pydict \<Rightarrow> pydict \<Rightarrow> real" where
  "calculate_user_similarity user1 user2 =
     (case similarity_try user1 user2 of Inl e \<Rightarrow> 0 | Inr s \<Rightarrow> s)"

definition has_required_fields :: "pydict \<Rightarrow> bool" where
  "has_required_fields profile = list_all (\<lambda>field. map_of profile field \<noteq> None) required_fields"

text \<open>
  The test the loop of \<^verbatim>\<open>find_similar_users\<close> applies to one entry of
  \<^verbatim>\<open>all_users_data\<close>: a dictionary, with a true \<^verbatim>\<open>userId\<close> other than the
  target's, and all required fields.
\<close>

fun peer_ok :: "json \<Rightarrow> json \<Rightarrow> bool" where
  "peer_ok target_user_id (JDict profile) =
     (let user_id = py_get profile ''userId'' JNull
      in truthy user_id \<and> \<not> py_eq user_id target_user_id \<and> has_required_fields profile)"
| "peer_ok target_user_id JNull = False"
| "peer_ok target_user_id (JBool b) = False"
| "peer_ok target_user_id (JNum r) = False"
| "peer_ok target_user_id (JStr s) = False"
| "peer_ok target_user_id (JList xs) = False"

text \<open>The loop of \<^verbatim>\<open>find_similar_users\<close>, appending to \<^verbatim>\<open>similarities\<close>.\<close>

fun similarities_loop :: "pydict \<Rightarrow> json \<Rightarrow> json list \<Rightarrow> (json \<times> real) list" where
  "similarities_loop target target_user_id [] = []"
| "similarities_loop target target_user_id (p # ps) =
     (case p of
        JDict profile \<Rightarrow>
          (let user_id = py_get profile ''userId'' JNull
           in if \<not> truthy user_id \<or> py_eq user_id target_user_id
              then similarities_loop target target_user_id ps
              else if \<not> has_required_fields profile
              then similarities_loop target target_user_id ps
              else (user_id, calculate_user_similarity target profile)
                     # similarities_loop target target_user_id ps)
      | _ \<Rightarrow> similarities_loop target target_user_id ps)"

definition find_similar_users :: "json \<Rightarrow> json \<Rightarrow> int \<Rightarrow> (json \<times> real) list" where
  "find_similar_users target_user_profile all_users_data n =
     (case target_user_profile of
        JDict target \<Rightarrow>
          (case all_users_data of
             JList profiles \<Rightarrow>
               (let target_user_id = py_get target ''userId'' JNull
                in if \<not> truthy target_user_id then []
                   else py_slice n (sort_desc snd (similarities_loop target target_user_id profiles)))
           | _ \<Rightarrow> [])
      | _ \<Rightarrow> [])"

text \<open>Projections used to state properties of the loop: the id and the fields of an entry.\<close>

fun user_id_of :: "json \<Rightarrow> json" where
  "user_id_of (JDict profile) = py_get profile ''userId'' JNull"
| "user_id_of JNull = JNull"
| "user_id_of (JBool b) = JNull"
| "user_id_of (JNum r) = JNull"
| "user_id_of (JStr s) = JNull"
| "user_id_of (JList xs) = JNull"

fun fields_of :: "json \<Rightarrow> pydict" where
  "fields_of (JDict d) = d"
| "fields_of JNull = []"
| "fields_of (JBool b) = []"
| "fields_of (JNum r) = []"
| "fields_of (JStr s) = []"
| "fields_of (JList xs) = []"

section \<open>core\_recommend.py\<close>

subsection \<open>\<^verbatim>\<open>is_cold_start_user\<close>\<close>

definition is_cold_start_user :: "json \<Rightarrow> bool" where
  "is_cold_start_user user_profile =
     (case user_profile of
        JDict d \<Rightarrow>
          (let test_history =
                 (case py_get d ''testHistory'' (JList []) of JList xs \<Rightarrow> xs | _ \<Rightarrow> []);
               learning_progress =
                 (case py_get d ''learningProgress'' (JDict []) of JDict kvs \<Rightarrow> kvs | _ \<Rightarrow> [])
           in length test_history < 2 \<and> dict_len learning_progress < 3)
      | _ \<Rightarrow> True)"

subsection \<open>\<^verbatim>\<open>get_topic_deficiency\<close>\<close>

text \<open>
  What the loop does with the entry whose name matches (lines 263 to 272).  Adding or
  comparing a count that is not a number raises \<^verbatim>\<open>TypeError\<close> (two strings or two
  lists can be added, but the sum cannot be compared with 0).
\<close>

definition entry_deficiency :: "pydict \<Rightarrow> real \<Rightarrow> py_error + real" where
  "entry_deficiency item desired_rate =
     (case num_of (py_get item ''totalCorrect'' (JNum 0)) of
        None \<Rightarrow> Inl TypeError
      | Some total_correct \<Rightarrow>
        (case num_of (py_get item ''totalIncorrect'' (JNum 0)) of
           None \<Rightarrow> Inl TypeError
         | Some total_incorrect \<Rightarrow>
           (let total = total_correct + total_incorrect
            in if total > 0
               then (let correct_rate = total_correct / total
                     in Inr (max 0 (desired_rate - correct_rate)))
               else Inr 0.5)))"

text \<open>The test \<^verbatim>\<open>item.get("topicName", "") == topic\<close>, on dictionaries only.\<close>

fun topic_matches :: "json \<Rightarrow> json \<Rightarrow> bool" where
  "topic_matches topic (JDict item) = py_eq (py_get item ''topicName'' (JStr [])) topic"
| "topic_matches topic JNull = False"
| "topic_matches topic (JBool b) = False"
| "topic_matches topic (JNum r) = False"
| "topic_matches topic (JStr s) = False"
| "topic_matches topic (JList xs) = False"

fun topic_stats_loop :: "json \<Rightarrow> json list \<Rightarrow> real \<Rightarrow> py_error + real" where
  "topic_stats_loop topic [] desired_rate = Inr 0.5"
| "topic_stats_loop topic (item # items) desired_rate =
     (case item of
        JDict d \<Rightarrow>
          if py_eq (py_get d ''topicName'' (JStr [])) topic
          then entry_deficiency d desired_rate
          else topic_stats_loop topic items desired_rate
      | _ \<Rightarrow> topic_stats_loop topic items desired_rate)"

definition get_topic_deficiency :: "json \<Rightarrow> json \<Rightarrow> real \<Rightarrow> py_error + real" where
  "get_topic_deficiency topic topic_stats desired_rate =
     (case topic_stats of
        JList items \<Rightarrow> topic_stats_loop topic items desired_rate
      | _ \<Rightarrow> Inr 0.5)"

text \<open>The default of the parameter \<^verbatim>\<open>desired_rate\<close>.\<close>

definition default_desired_rate :: real where
  "default_desired_rate = 0.8"

subsection \<open>\<^verbatim>\<open>get_collaborative_score\<close>\<close>

text \<open>Lines 344 to 353: the attempt factor, with the mastery bonus.\<close>

definition attempt_factor :: "real \<Rightarrow> real \<Rightarrow> real" where
  "attempt_factor normalized_score attempts =
     (let base = (if attempts \<le> 2 then 1.0 else max 0.4 (1.0 - 0.15 * (attempts - 2)))
      in if normalized_score > 0.85 \<and> attempts \<ge> 3
         then base + min 0.3 (0.1 * (attempts - 2))
         else base)"

text \<open>Lines 341 and 356.\<close>

definition effective_score :: "real \<Rightarrow> real \<Rightarrow> real" where
  "effective_score avg_score attempts =
     (let normalized_score = avg_score / 990
      in normalized_score * attempt_factor normalized_score attempts)"

text \<open>The test of line 330 on one entry of a neighbour's test history.\<close>

fun record_matches :: "string \<Rightarrow> json \<Rightarrow> bool" where
  "record_matches candidate_id (JDict test_record) =
     py_eq (py_get test_record ''testId'' (py_get test_record ''test_id'' (JStr [])))
           (JStr candidate_id)"
| "record_matches candidate_id JNull = False"
| "record_matches candidate_id (JBool b) = False"
| "record_matches candidate_id (JNum r) = False"
| "record_matches candidate_id (JStr s) = False"
| "record_matches candidate_id (JList xs) = False"

text \<open>
  Lines 332 to 356 for the matching record.  Dividing or comparing a value that is not a
  number raises \<^verbatim>\<open>TypeError\<close>.
\<close>

definition record_score :: "pydict \<Rightarrow> py_error + real" where
  "record_score test_record =
     (let avg_score = py_get test_record ''avgScore''
                        (py_get test_record ''averageScore''
                           (py_get test_record ''avg_score'' (JNum 0)));
          attempts = py_get test_record ''attempt''
                       (py_get test_record ''attempts''
                          (py_get test_record ''attemptCount'' (JNum 0)))
      in case num_of avg_score of
           None \<Rightarrow> Inl TypeError
         | Some a \<Rightarrow>
           (case num_of attempts of
              None \<Rightarrow> Inl TypeError
            | Some n \<Rightarrow> Inr (effective_score a n)))"

text \<open>
  The loop over a neighbour's test history: the first matching record decides
  (\<^verbatim>\<open>break\<close>); \<open>None\<close> when no record matches.
\<close>

fun test_history_loop :: "string \<Rightarrow> json list \<Rightarrow> py_error + real option" where
  "test_history_loop candidate_id [] = Inr None"
| "test_history_loop candidate_id (test_record # rest) =
     (case test_record of
        JDict r \<Rightarrow>
          if py_eq (py_get r ''testId'' (py_get r ''test_id'' (JStr []))) (JStr candidate_id)
          then (case record_score r of Inl e \<Rightarrow> Inl e | Inr v \<Rightarrow> Inr (Some v))
          else test_history_loop candidate_id rest
      | _ \<Rightarrow> test_history_loop candidate_id rest)"

definition neighbor_test_score :: "string \<Rightarrow> pydict \<Rightarrow> py_error + real option" where
  "neighbor_test_score candidate_id profile =
     (case py_get profile ''testHistory'' (JList []) of
        JList test_history \<Rightarrow> test_history_loop candidate_id test_history
      | _ \<Rightarrow> Inr None)"

text \<open>The search through the nested \<^verbatim>\<open>items\<close> (lines 377 to 380).\<close>

fun items_loop :: "string \<Rightarrow> json list \<Rightarrow> json" where
  "items_loop candidate_id [] = JNull"
| "items_loop candidate_id (item # items) =
     (case item of
        JDict d \<Rightarrow>
          (case map_of d candidate_id of
             Some v \<Rightarrow> v
           | None \<Rightarrow> items_loop candidate_id items)
      | _ \<Rightarrow> items_loop candidate_id items)"

text \<open>Lines 371 to 380: \<^verbatim>\<open>progress_data\<close>, \<open>JNull\<close> standing for \<^verbatim>\<open>None\<close>.\<close>

definition progress_data_of :: "string \<Rightarrow> pydict \<Rightarrow> py_error + json" where
  "progress_data_of candidate_id learning_progress =
     (case map_of learning_progress candidate_id of
        Some v \<Rightarrow> Inr v
      | None \<Rightarrow>
        (case py_iter (py_get learning_progress ''items'' (JList [])) of
           Inl e \<Rightarrow> Inl e
         | Inr items \<Rightarrow> Inr (items_loop candidate_id items)))"

text \<open>Lines 382 to 391: the completion read from \<^verbatim>\<open>progress_data\<close>.\<close>

definition completion_of :: "json \<Rightarrow> py_error + real option" where
  "completion_of progress_data =
     (if truthy progress_data
      then (case progress_data of
              JDict pd \<Rightarrow>
                (case num_of (py_get pd ''percent'' (JNum 0)) of
                   None \<Rightarrow> Inl TypeError
                 | Some p \<Rightarrow> Inr (Some (min p 100 / 100)))
            | JNum x \<Rightarrow> Inr (Some (min x 100 / 100))
            | JBool b \<Rightarrow> Inr (Some (min (if b then 1 else 0) 100 / 100))
            | _ \<Rightarrow> Inr None)
      else Inr None)"

definition neighbor_lecture_score :: "string \<Rightarrow> pydict \<Rightarrow> py_error + real option" where
  "neighbor_lecture_score candidate_id profile =
     (case py_get profile ''learningProgress'' (JDict []) of
        JDict learning_progress \<Rightarrow>
          (case progress_data_of candidate_id learning_progress of
             Inl e \<Rightarrow> Inl e
           | Inr progress_data \<Rightarrow> completion_of progress_data)
      | _ \<Rightarrow> Inr None)"

definition neighbor_score :: "string \<Rightarrow> string \<Rightarrow> pydict \<Rightarrow> py_error + real option" where
  "neighbor_score candidate_type candidate_id profile =
     (if candidate_type = ''test'' then neighbor_test_score candidate_id profile
      else if candidate_type = ''lecture'' then neighbor_lecture_score candidate_id profile
      else Inr None)"

text \<open>
  Lines 303 to 306: the lookup map, as an association list with the latest entry first
  (a later profile with the same \<^verbatim>\<open>userId\<close> replaces an earlier one).  A
  \<^verbatim>\<open>userId\<close> that is a list or a dictionary cannot be a key.
\<close>

fun user_data_map_loop ::
  "json list \<Rightarrow> (json \<times> pydict) list \<Rightarrow> py_error + (json \<times> pydict) list" where
  "user_data_map_loop [] user_data_map = Inr user_data_map"
| "user_data_map_loop (user # users) user_data_map =
     (case user of
        JDict d \<Rightarrow>
          (case map_of d ''userId'' of
             None \<Rightarrow> user_data_map_loop users user_data_map
           | Some k \<Rightarrow>
               if hashable k then user_data_map_loop users ((k, d) # user_data_map)
               else Inl TypeError)
      | _ \<Rightarrow> user_data_map_loop users user_data_map)"

text \<open>Lines 308 to 394: the loop over the neighbours, threading \<^verbatim>\<open>score\<close> and \<^verbatim>\<open>count\<close> (here \<open>matched\<close>).\<close>

fun neighbors_loop ::
  "string \<Rightarrow> string \<Rightarrow> (json \<times> pydict) list \<Rightarrow> (string \<times> real) list \<Rightarrow> real \<Rightarrow> nat
     \<Rightarrow> py_error + real \<times> nat" where
  "neighbors_loop candidate_type candidate_id user_data_map [] score matched = Inr (score, matched)"
| "neighbors_loop candidate_type candidate_id user_data_map ((uid, similarity) # rest) score matched =
     (case map_of user_data_map (JStr uid) of
        None \<Rightarrow> neighbors_loop candidate_type candidate_id user_data_map rest score matched
      | Some profile \<Rightarrow>
          if profile = []
          then neighbors_loop candidate_type candidate_id user_data_map rest score matched
          else
           (case neighbor_score candidate_type candidate_id profile of
              Inl e \<Rightarrow> Inl e
            | Inr None \<Rightarrow>
                neighbors_loop candidate_type candidate_id user_data_map rest score matched
            | Inr (Some v) \<Rightarrow>
                neighbors_loop candidate_type candidate_id user_data_map rest
                  (score + similarity * v) (matched + 1)))"

definition py_div :: "real \<Rightarrow> real \<Rightarrow> py_error + real" where
  "py_div a b = (if b = 0 then Inl ZeroDivisionError else Inr (a / b))"

definition get_collaborative_score ::
  "string \<Rightarrow> (string \<times> real) list \<Rightarrow> json \<Rightarrow> string \<Rightarrow> py_error + real" where
  "get_collaborative_score candidate_id similar_users all_users_data candidate_type =
     (if similar_users = [] \<or> candidate_id = [] then Inr 0
      else
       case all_users_data of
         JList users \<Rightarrow>
           (case user_data_map_loop users [] of
              Inl e \<Rightarrow> Inl e
            | Inr user_data_map \<Rightarrow>
              (case neighbors_loop candidate_type candidate_id user_data_map similar_users 0 0 of
                 Inl e \<Rightarrow> Inl e
               | Inr (score, matched) \<Rightarrow> py_div score (max 1 (real matched))))
       | _ \<Rightarrow> Inr 0)"

fun is_dict :: "json \<Rightarrow> bool" where
  "is_dict (JDict d) = True"
| "is_dict JNull = False"
| "is_dict (JBool b) = False"
| "is_dict (JNum r) = False"
| "is_dict (JStr s) = False"
| "is_dict (JList xs) = False"

fun is_list :: "json \<Rightarrow> bool" where
  "is_list (JList xs) = True"
| "is_list JNull = False"
| "is_list (JBool b) = False"
| "is_list (JNum r) = False"
| "is_list (JStr s) = False"
| "is_list (JDict d) = False"

text \<open>
  The lengths \<^verbatim>\<open>is_cold_start_user\<close> compares: a \<^verbatim>\<open>testHistory\<close> that is not a list and
  a \<^verbatim>\<open>learningProgress\<close> that is not a dictionary count as empty.
\<close>

definition history_length :: "json \<Rightarrow> nat" where
  "history_length profile =
     (case py_get (fields_of profile) ''testHistory'' (JList []) of
        JList xs \<Rightarrow> length xs
      | _ \<Rightarrow> 0)"

definition progress_length :: "json \<Rightarrow> nat" where
  "progress_length profile =
     (case py_get (fields_of profile) ''learningProgress'' (JDict []) of
        JDict kvs \<Rightarrow> dict_len kvs
      | _ \<Rightarrow> 0)"

text \<open>
  The cold-start test as claim C6 words it, for comparison with the code: true when the
  profile is malformed (not a dictionary, or a \<^verbatim>\<open>testHistory\<close> or \<^verbatim>\<open>learningProgress\<close>
  of the wrong shape), or when both lengths are under their thresholds.
\<close>

definition malformed_profile :: "json \<Rightarrow> bool" where
  "malformed_profile profile =
     (\<not> is_dict profile
      \<or> \<not> is_list (py_get (fields_of profile) ''testHistory'' (JList []))
      \<or> \<not> is_dict (py_get (fields_of profile) ''learningProgress'' (JDict [])))"

definition claimed_is_cold_start :: "json \<Rightarrow> bool" where
  "claimed_is_cold_start profile =
     (malformed_profile profile \<or> (history_length profile < 2 \<and> progress_length profile < 3))"

text \<open>
  What it means for a neighbour to have a matching interaction with the candidate: for a
  test, the neighbour's test history is a list that holds a record of the candidate; for a
  lecture, progress data is found for the candidate (under its own key, or in the nested
  \<^verbatim>\<open>items\<close>), it is true, and it is a dictionary or a number.
\<close>

definition taken_test :: "string \<Rightarrow> pydict \<Rightarrow> bool" where
  "taken_test candidate_id profile =
     (case py_get profile ''testHistory'' (JList []) of
        JList test_history \<Rightarrow> list_ex (record_matches candidate_id) test_history
      | _ \<Rightarrow> False)"

definition started_lecture :: "string \<Rightarrow> pydict \<Rightarrow> bool" where
  "started_lecture candidate_id profile =
     (case py_get profile ''learningProgress'' (JDict []) of
        JDict learning_progress \<Rightarrow>
          (case progress_data_of candidate_id learning_progress of
             Inl e \<Rightarrow> False
           | Inr progress_data \<Rightarrow>
               truthy progress_data \<and> (is_dict progress_data \<or> num_of progress_data \<noteq> None))
      | _ \<Rightarrow> False)"

definition has_interaction :: "string \<Rightarrow> string \<Rightarrow> pydict \<Rightarrow> bool" where
  "has_interaction candidate_type candidate_id profile =
     (if candidate_type = ''test'' then taken_test candidate_id profile
      else if candidate_type = ''lecture'' then started_lecture candidate_id profile
      else False)"

text \<open>
  The lecture scan iterates over \<^verbatim>\<open>learning_progress.get("items", [])\<close> when the
  candidate is not a key of the neighbour's learning progress; the value must be iterable.
\<close>

definition items_iterable :: "string \<Rightarrow> pydict \<Rightarrow> bool" where
  "items_iterable candidate_id profile =
     (case py_get profile ''learningProgress'' (JDict []) of
        JDict learning_progress \<Rightarrow>
          (case map_of learning_progress candidate_id of
             Some v \<Rightarrow> True
           | None \<Rightarrow>
             (case py_iter (py_get learning_progress ''items'' (JList [])) of
                Inl e \<Rightarrow> False
              | Inr items \<Rightarrow> True))
      | _ \<Rightarrow> True)"

text \<open>
  The profile the lookup map holds for a neighbour: the last dictionary of
  \<^verbatim>\<open>all_users_data\<close> whose \<^verbatim>\<open>userId\<close> is the neighbour's id.
\<close>

definition neighbor_profile :: "json list \<Rightarrow> string \<Rightarrow> pydict option" where
  "neighbor_profile users uid =
     (case filter (\<lambda>u. is_dict u \<and> map_of (fields_of u) ''userId'' = Some (JStr uid)) users of
        [] \<Rightarrow> None
      | p # ps \<Rightarrow> Some (fields_of (last (p # ps))))"

section \<open>cold\_start.py\<close>

subsection \<open>\<^verbatim>\<open>recommend_cold_start_tests\<close>\<close>

text \<open>
  The entries of \<^verbatim>\<open>scored_tests\<close>.  The cold-start functions make no check of the shape
  of their arguments: a missing key is a \<^verbatim>\<open>KeyError\<close>, a value of the wrong kind a
  \<^verbatim>\<open>TypeError\<close> or an \<^verbatim>\<open>AttributeError\<close>.
\<close>

record scored_test =
  st_id :: json
  st_name :: json
  st_score :: real
  st_already_taken :: bool
  st_attempts :: real
  st_avg_score :: real
  st_difficulty :: json
  st_topics :: json
  st_testId :: json

text \<open>Line 95: \<^verbatim>\<open>[item["testId"] for item in user_profile.get("testHistory", [])]\<close>.\<close>

definition completed_test_ids :: "json \<Rightarrow> py_error + json list" where
  "completed_test_ids user_profile =
     (case user_profile of
        JDict d \<Rightarrow>
          (case py_iter (py_get d ''testHistory'' (JList [])) of
             Inl e \<Rightarrow> Inl e
           | Inr items \<Rightarrow> err_map (\<lambda>item. py_subscript item ''testId'') items)
      | _ \<Rightarrow> Inl AttributeError)"

text \<open>
  Lines 96 and 153: \<^verbatim>\<open>[x for x in candidates if x[key] not in known_ids]\<close>.
\<close>

fun exclude_known :: "string \<Rightarrow> json list \<Rightarrow> json list \<Rightarrow> py_error + json list" where
  "exclude_known key known_ids [] = Inr []"
| "exclude_known key known_ids (x # xs) =
     (case py_subscript x key of
        Inl e \<Rightarrow> Inl e
      | Inr v \<Rightarrow>
        (case exclude_known key known_ids xs of
           Inl e \<Rightarrow> Inl e
         | Inr rest \<Rightarrow> Inr (if py_in v known_ids then rest else x # rest)))"

definition available_tests :: "json list \<Rightarrow> json list \<Rightarrow> py_error + json list" where
  "available_tests completed test_candidates = exclude_known ''testId'' completed test_candidates"

text \<open>Line 103: \<^verbatim>\<open>user_profile.get("target", 500) // 100\<close>.\<close>

definition target_difficulty_of :: "pydict \<Rightarrow> py_error + real" where
  "target_difficulty_of d =
     (case num_of (py_get d ''target'' (JNum 500)) of
        None \<Rightarrow> Inl TypeError
      | Some t \<Rightarrow> Inr (of_int \<lfloor>t / 100\<rfloor>))"

fun max_list :: "real list \<Rightarrow> real" where
  "max_list [] = 0"
| "max_list [x] = x"
| "max_list (x # y # ys) = max x (max_list (y # ys))"

text \<open>
  Line 108: \<^verbatim>\<open>max([t["totalUserAttempt"] for t in test_candidates]) if test_candidates else 1\<close>.
  With a value that is not a number, either \<^verbatim>\<open>max\<close> or the comparison with 0 that
  follows raises \<^verbatim>\<open>TypeError\<close>.
\<close>

definition max_attempts_of :: "json list \<Rightarrow> py_error + real" where
  "max_attempts_of test_candidates =
     (if test_candidates = [] then Inr 1
      else
       case err_map (\<lambda>t. py_subscript t ''totalUserAttempt'') test_candidates of
         Inl e \<Rightarrow> Inl e
       | Inr attempt_values \<Rightarrow>
         (case err_map (\<lambda>v. case num_of v of None \<Rightarrow> Inl TypeError | Some r \<Rightarrow> Inr r)
                 attempt_values of
            Inl e \<Rightarrow> Inl e
          | Inr nums \<Rightarrow> Inr (max_list nums)))"

text \<open>Lines 107 to 129: the body of the scoring loop, for one available test.\<close>

definition score_test :: "json list \<Rightarrow> real \<Rightarrow> json \<Rightarrow> py_error + scored_test" where
  "score_test test_candidates target_difficulty test =
     (case max_attempts_of test_candidates of
        Inl e \<Rightarrow> Inl e
      | Inr max_attempts \<Rightarrow>
      (case (if max_attempts > 0
             then (case py_subscript test ''totalUserAttempt'' of
                     Inl e \<Rightarrow> Inl e
                   | Inr a \<Rightarrow>
                     (case num_of a of
                        None \<Rightarrow> Inl TypeError
                      | Some x \<Rightarrow> Inr (x / max_attempts)))
             else Inr 0) of
        Inl e \<Rightarrow> Inl e
      | Inr popularity_score \<Rightarrow>
      (case py_subscript test ''difficulty'' of
        Inl e \<Rightarrow> Inl e
      | Inr difficulty \<Rightarrow>
      (case num_of difficulty of
        None \<Rightarrow> Inl TypeError
      | Some dv \<Rightarrow>
        (let difficulty_diff = \<bar>dv - target_difficulty\<bar> / 10;
             difficulty_score = 1 - min 1 difficulty_diff;
             combined_score = 0.7 * popularity_score + 0.3 * difficulty_score
         in case py_subscript test ''testId'' of
              Inl e \<Rightarrow> Inl e
            | Inr test_id \<Rightarrow>
            (case py_subscript test ''name'' of
              Inl e \<Rightarrow> Inl e
            | Inr name \<Rightarrow>
            (case py_subscript test ''topics'' of
              Inl e \<Rightarrow> Inl e
            | Inr topics \<Rightarrow>
                Inr \<lparr> st_id = test_id, st_name = name, st_score = combined_score,
                      st_already_taken = False, st_attempts = 0, st_avg_score = 0,
                      st_difficulty = difficulty, st_topics = topics,
                      st_testId = test_id \<rparr>)))))))"

definition recommend_cold_start_tests ::
  "json \<Rightarrow> json list \<Rightarrow> int \<Rightarrow> py_error + scored_test list" where
  "recommend_cold_start_tests user_profile test_candidates limit =
     (case completed_test_ids user_profile of
        Inl e \<Rightarrow> Inl e
      | Inr completed \<Rightarrow>
      (case available_tests completed test_candidates of
        Inl e \<Rightarrow> Inl e
      | Inr available \<Rightarrow>
      (case target_difficulty_of (fields_of user_profile) of
        Inl e \<Rightarrow> Inl e
      | Inr target_difficulty \<Rightarrow>
      (case err_map (score_test test_candidates target_difficulty) available of
        Inl e \<Rightarrow> Inl e
      | Inr scored_tests \<Rightarrow> Inr (py_slice limit (sort_desc st_score scored_tests))))))"

subsection \<open>\<^verbatim>\<open>recommend_cold_start_lectures\<close>\<close>

record scored_lecture =
  sl_id :: json
  sl_name :: json
  sl_score :: real
  sl_already_learned :: bool
  sl_completion :: real
  sl_topics :: json
  sl_lectureId :: json

text \<open>Line 152: \<^verbatim>\<open>list(user_profile.get("learningProgress", {}).keys())\<close>.\<close>

definition started_lecture_ids :: "json \<Rightarrow> py_error + json list" where
  "started_lecture_ids user_profile =
     (case user_profile of
        JDict d \<Rightarrow>
          (case py_get d ''learningProgress'' (JDict []) of
             JDict learning_progress \<Rightarrow> Inr (map JStr (dict_keys learning_progress))
           | _ \<Rightarrow> Inl AttributeError)
      | _ \<Rightarrow> Inl AttributeError)"

definition score_lecture :: "json \<Rightarrow> py_error + scored_lecture" where
  "score_lecture lecture =
     (case py_subscript lecture ''lectureId'' of
        Inl e \<Rightarrow> Inl e
      | Inr lecture_id \<Rightarrow>
      (case py_subscript lecture ''name'' of
        Inl e \<Rightarrow> Inl e
      | Inr name \<Rightarrow>
      (case py_subscript lecture ''topics'' of
        Inl e \<Rightarrow> Inl e
      | Inr topics \<Rightarrow>
          Inr \<lparr> sl_id = lecture_id, sl_name = name, sl_score = 1.0,
                sl_already_learned = False, sl_completion = 0, sl_topics = topics,
                sl_lectureId = lecture_id \<rparr>)))"

definition recommend_cold_start_lectures ::
  "json \<Rightarrow> json list \<Rightarrow> int \<Rightarrow> py_error + scored_lecture list" where
  "recommend_cold_start_lectures user_profile lecture_candidates limit =
     (case started_lecture_ids user_profile of
        Inl e \<Rightarrow> Inl e
      | Inr started \<Rightarrow>
      (case exclude_known ''lectureId'' started lecture_candidates of
        Inl e \<Rightarrow> Inl e
      | Inr available_lectures \<Rightarrow>
      (case err_map score_lecture available_lectures of
        Inl e \<Rightarrow> Inl e
      | Inr scored_lectures \<Rightarrow> Inr (py_slice limit scored_lectures))))"

subsection \<open>\<^verbatim>\<open>generate_cold_start_recommendations\<close>\<close>

text \<open>
  The two catalogues, fetched from the backend in the source, are parameters here.  The
  text of the explanations is left out of the result; what computing it can raise is
  kept.
\<close>

record test_recommendation =
  tr_id :: json
  tr_name :: json
  tr_score :: real
  tr_testId :: json

record lecture_recommendation =
  lr_id :: json
  lr_name :: json
  lr_score :: real
  lr_lectureId :: json

record recommendations =
  rec_userId :: json
  recommendedTests :: "test_recommendation list"
  recommendedLectures :: "lecture_recommendation list"

fun is_str :: "json \<Rightarrow> bool" where
  "is_str (JStr s) = True"
| "is_str JNull = False"
| "is_str (JBool b) = False"
| "is_str (JNum r) = False"
| "is_str (JList xs) = False"
| "is_str (JDict d) = False"

text \<open>\<^verbatim>\<open>", ".join(x)\<close> needs an iterable of strings.\<close>

definition py_join :: "json \<Rightarrow> py_error + unit" where
  "py_join x =
     (case py_iter x of
        Inl e \<Rightarrow> Inl TypeError
      | Inr items \<Rightarrow> if list_all is_str items then Inr () else Inl TypeError)"

text \<open>Lines 34 to 51.\<close>

definition format_test :: "pydict \<Rightarrow> scored_test \<Rightarrow> py_error + test_recommendation" where
  "format_test user_profile rec =
     (case py_abs_diff (st_difficulty rec) (py_get user_profile ''target'' (JNum 0)) of
        Inl e \<Rightarrow> Inl e
      | Inr diff_gap \<Rightarrow>
          Inr \<lparr> tr_id = st_id rec, tr_name = st_name rec, tr_score = st_score rec,
                tr_testId = st_testId rec \<rparr>)"

text \<open>Lines 54 to 68.\<close>

definition format_lecture :: "scored_lecture \<Rightarrow> py_error + lecture_recommendation" where
  "format_lecture rec =
     (case py_join (sl_topics rec) of
        Inl e \<Rightarrow> Inl e
      | Inr topic_list \<Rightarrow>
          Inr \<lparr> lr_id = sl_id rec, lr_name = sl_name rec, lr_score = sl_score rec,
                lr_lectureId = sl_lectureId rec \<rparr>)"

definition generate_cold_start_recommendations ::
  "json \<Rightarrow> json list \<Rightarrow> json list \<Rightarrow> int \<Rightarrow> py_error + recommendations" where
  "generate_cold_start_recommendations user_profile test_candidates lecture_candidates limit =
     (case py_subscript user_profile ''userId'' of
        Inl e \<Rightarrow> Inl e
      | Inr user_id \<Rightarrow>
      (case recommend_cold_start_tests user_profile test_candidates limit of
        Inl e \<Rightarrow> Inl e
      | Inr recommended_tests \<Rightarrow>
      (case recommend_cold_start_lectures user_profile lecture_candidates limit of
        Inl e \<Rightarrow> Inl e
      | Inr recommended_lectures \<Rightarrow>
      (case err_map (format_test (fields_of user_profile)) recommended_tests of
        Inl e \<Rightarrow> Inl e
      | Inr test_recommendations \<Rightarrow>
      (case err_map format_lecture recommended_lectures of
        Inl e \<Rightarrow> Inl e
      | Inr lecture_recommendations \<Rightarrow>
          Inr \<lparr> rec_userId = user_id, recommendedTests = test_recommendations,
                recommendedLectures = lecture_recommendations \<rparr>)))))"


section \<open>Example data\<close>

definition learner_a :: pydict where
  "learner_a = [(''userId'', JStr ''u1''), (''target'', JNum 600),
     (''averageListeningScore'', JNum 300), (''averageReadingScore'', JNum 200),
     (''averageTotalScore'', JNum 500)]"

definition learner_b :: pydict where
  "learner_b = [(''userId'', JStr ''u2''), (''target'', JNum 700),
     (''averageListeningScore'', JNum 350), (''averageReadingScore'', JNum 320),
     (''averageTotalScore'', JNum 670)]"

definition learner_c :: pydict where
  "learner_c = [(''userId'', JStr ''u3''), (''target'', JNum 600),
     (''averageListeningScore'', JNum 250), (''averageReadingScore'', JNum 250),
     (''averageTotalScore'', JNum 500)]"

definition newcomer :: pydict where
  "newcomer = [(''userId'', JStr ''u9''), (''target'', JNum 600)]"

definition busy_learner :: json where
  "busy_learner = JDict [(''userId'', JStr ''u5''), (''testHistory'', JNull),
     (''learningProgress'', JDict [(''L1'', JDict [(''percent'', JNum 40)]),
                                   (''L2'', JDict [(''percent'', JNum 10)]),
                                   (''L3'', JDict [(''percent'', JNum 90)])])]"

definition topic_stats_example :: "json list" where
  "topic_stats_example =
     [JStr ''noise'',
      JDict [(''topicName'', JStr ''grammar''), (''totalCorrect'', JNum 6),
             (''totalIncorrect'', JNum 4)],
      JDict [(''topicName'', JStr ''reading''), (''totalCorrect'', JNum 0),
             (''totalIncorrect'', JNum 0)],
      JDict [(''topicName'', JStr ''grammar''), (''totalCorrect'', JNum 0),
             (''totalIncorrect'', JNum 9)]]"

definition peer_with_history :: json where
  "peer_with_history = JDict [(''userId'', JStr ''u2''),
     (''testHistory'', JList [JDict [(''testId'', JStr ''T1''), (''avgScore'', JNum 800),
                                     (''attempts'', JNum 1)]]),
     (''learningProgress'', JDict [(''L7'', JDict [(''percent'', JNum 40)])])]"

definition peer_with_null_items :: json where
  "peer_with_null_items = JDict [(''userId'', JStr ''u2''),
     (''learningProgress'', JDict [(''items'', JNull)])]"

definition new_user :: json where
  "new_user = JDict [(''userId'', JStr ''u1''), (''target'', JNum 600),
     (''testHistory'', JList [JDict [(''testId'', JStr ''T1''), (''attempts'', JNum 1),
                                     (''avgScore'', JNum 500)]]),
     (''learningProgress'', JDict [])]"

definition test_catalog :: "json list" where
  "test_catalog =
     [JDict [(''testId'', JStr ''T1''), (''name'', JStr ''Mock 1''), (''difficulty'', JNum 6),
             (''topics'', JList [JStr ''grammar'']), (''totalUserAttempt'', JNum 40)],
      JDict [(''testId'', JStr ''T2''), (''name'', JStr ''Mock 2''), (''difficulty'', JNum 5),
             (''topics'', JList [JStr ''reading'']), (''totalUserAttempt'', JNum 20)],
      JDict [(''testId'', JStr ''T3''), (''name'', JStr ''Mock 3''), (''difficulty'', JNum 9),
             (''topics'', JList []), (''totalUserAttempt'', JNum 40)]]"

definition null_history_user :: json where
  "null_history_user = JDict [(''userId'', JStr ''u7''), (''testHistory'', JNull),
     (''learningProgress'', JDict [])]"

definition null_progress_user :: json where
  "null_progress_user = JDict [(''userId'', JStr ''u8''), (''testHistory'', JList []),
     (''learningProgress'', JNull)]"

lemmas example_defs = learner_a_def learner_b_def learner_c_def newcomer_def

lemmas similarity_defs =
  calculate_user_similarity_def similarity_try_def missing_fields_def required_fields_def
  has_required_fields_def py_get_def py_abs_diff_def


section \<open>Properties of the pairwise similarity\<close>

lemma py_eq_refl: "py_eq a a"
proof (induction a)
  case (JList xs)
  then show ?case by (simp add: list_all2_same)
next
  case (JDict d)
  have "\<exists>v. map_of d k = Some v \<and> py_eq v v" if "k \<in> set (dict_keys d)" for k
  proof -
    from that have "k \<in> fst ` set d" by (simp add: dict_keys_def)
    then obtain v where v: "map_of d k = Some v"
      by (metis domD dom_map_of_conv_image_fst)
    then have "(k, v) \<in> set d" by (rule map_of_SomeD)
    with JDict have "py_eq v v" by (auto simp: snds.simps)
    with v show ?thesis by blast
  qed
  then show ?case by (fastforce simp: list_all_iff)
qed simp_all



lemma missing_fields_empty: "missing_fields a = [] \<longleftrightarrow> has_required_fields a"
  by (auto simp: missing_fields_def has_required_fields_def filter_empty_conv list_all_iff)

lemma similarity_missing_target:
  "\<not> has_required_fields t \<Longrightarrow> calculate_user_similarity t p = 0.1"
  by (simp add: calculate_user_similarity_def similarity_try_def missing_fields_empty)



text \<open>
  Claim C2, as stated, fails: the listening and reading differences are taken crosswise
  (one profile's listening average against the other's reading average), also when a
  profile is compared with itself.  A learner with listening 300 and reading 200 has all
  four required fields and self-similarity 5/6.
\<close>

theorem self_similarity_counterexample:
  "has_required_fields learner_a
   \<and> calculate_user_similarity learner_a learner_a = 5 / 6
   \<and> calculate_user_similarity learner_a learner_a \<noteq> 1"
  by (simp add: example_defs similarity_defs)

text \<open>
  Claim C2, amended.  For every profile \<open>a\<close> that contains all four required fields
  with numeric values, the similarity of \<open>a\<close> with itself is
  \<open>1 - min 1 (|listening - reading| / 300) / 2\<close>; it equals 1 exactly when the listening
  and reading averages of \<open>a\<close> are equal.
\<close>

theorem self_similarity_cross_terms:
  assumes "has_required_fields a"
    and "num_of (py_get a ''target'' (JNum 0)) = Some t"
    and "num_of (py_get a ''averageListeningScore'' (JNum 0)) = Some l"
    and "num_of (py_get a ''averageReadingScore'' (JNum 0)) = Some r"
    and "num_of (py_get a ''averageTotalScore'' (JNum 0)) = Some s"
  shows "calculate_user_similarity a a = 1 - min 1 (\<bar>l - r\<bar> / 300) / 2
         \<and> (calculate_user_similarity a a = 1 \<longleftrightarrow> l = r)"
proof -
  have m: "missing_fields a = []" using assms(1) by (simp add: missing_fields_empty)
  have "similarity_try a a = Inr (1 - min 1 (\<bar>l - r\<bar> / 300) / 2)"
    using assms(2-5) m
    by (simp add: similarity_try_def py_abs_diff_def Let_def abs_minus_commute [of r l]
          min_def max_def)
  then have 1: "calculate_user_similarity a a = 1 - min 1 (\<bar>l - r\<bar> / 300) / 2"
    by (simp add: calculate_user_similarity_def)
  show ?thesis unfolding 1 by (auto simp: min_def)
qed

theorem self_similarity_cross_terms_witness:
  "has_required_fields learner_c
   \<and> num_of (py_get learner_c ''averageListeningScore'' (JNum 0)) = Some 250
   \<and> num_of (py_get learner_c ''averageReadingScore'' (JNum 0)) = Some 250
   \<and> calculate_user_similarity learner_c learner_c = 1"
proof -
  have h: "has_required_fields learner_c"
    "num_of (py_get learner_c ''target'' (JNum 0)) = Some 600"
    "num_of (py_get learner_c ''averageListeningScore'' (JNum 0)) = Some 250"
    "num_of (py_get learner_c ''averageReadingScore'' (JNum 0)) = Some 250"
    "num_of (py_get learner_c ''averageTotalScore'' (JNum 0)) = Some 500"
    by (simp_all add: example_defs has_required_fields_def required_fields_def py_get_def)
  from self_similarity_cross_terms [OF h] h show ?thesis by simp
qed

section \<open>Properties of the neighbour search\<close>

lemma similarities_loop_eq:
  "similarities_loop t tid ps =
     map (\<lambda>p. (user_id_of p, calculate_user_similarity t (fields_of p))) (filter (peer_ok tid) ps)"
proof (induction ps)
  case Nil
  show ?case by simp
next
  case (Cons p ps)
  then show ?case by (cases p) (auto simp: Let_def)
qed

lemma sort_key_const:
  assumes "\<forall>x\<in>set xs. f x = c"
  shows "sort_key f xs = xs"
proof -
  from assms have "map f xs = replicate (length xs) c"
    by (induction xs) auto
  then have "sorted (map f xs)" by simp
  then show ?thesis by (rule sort_key_id_if_sorted)
qed


lemma set_sort_desc: "set (sort_desc f xs) = set xs"
  by (simp add: sort_desc_def)



lemma set_py_slice: "set (py_slice n xs) \<subseteq> set xs"
  by (auto simp: py_slice_def dest: in_set_takeD)




text \<open>
  Claim C10.  When the target profile has a (true) \<^verbatim>\<open>userId\<close> but lacks one of the
  four required fields, \<^verbatim>\<open>find_similar_users\<close> neither returns early nor skips peers:
  every entry of the peer list that passes the loop's own test (a dictionary with a true
  \<^verbatim>\<open>userId\<close> other than the target's and all four required fields) is given the
  similarity 0.1, and the result is the first \<open>n\<close> of them, in the order of the peer list.
\<close>

theorem find_similar_users_target_missing_fields:
  assumes "truthy (py_get t ''userId'' JNull)" and "\<not> has_required_fields t"
  shows "find_similar_users (JDict t) (JList ps) n =
           py_slice n (map (\<lambda>p. (user_id_of p, 0.1))
                           (filter (peer_ok (py_get t ''userId'' JNull)) ps))"
proof -
  let ?tid = "py_get t ''userId'' JNull"
  have 1: "similarities_loop t ?tid ps = map (\<lambda>p. (user_id_of p, 0.1)) (filter (peer_ok ?tid) ps)"
    using assms(2) by (simp add: similarities_loop_eq similarity_missing_target)
  have "sort_desc snd (similarities_loop t ?tid ps) = similarities_loop t ?tid ps"
    unfolding sort_desc_def by (rule sort_key_const [where c = "- 0.1"]) (auto simp: 1)
  then show ?thesis using assms(1) by (simp add: find_similar_users_def Let_def 1)
qed

theorem find_similar_users_target_missing_fields_witness:
  "truthy (py_get newcomer ''userId'' JNull) \<and> \<not> has_required_fields newcomer
   \<and> find_similar_users (JDict newcomer)
        (JList [JDict learner_a, JDict newcomer, JStr ''x'', JDict learner_b, JDict learner_c]) 2
       = [(JStr ''u1'', 0.1), (JStr ''u2'', 0.1)]"
proof -
  have h: "truthy (py_get newcomer ''userId'' JNull)" "\<not> has_required_fields newcomer"
    by (simp_all add: example_defs has_required_fields_def required_fields_def py_get_def)
  have "py_slice 2 (map (\<lambda>p. (user_id_of p, 0.1))
          (filter (peer_ok (py_get newcomer ''userId'' JNull))
             [JDict learner_a, JDict newcomer, JStr ''x'', JDict learner_b, JDict learner_c]))
        = [(JStr ''u1'', 0.1 :: real), (JStr ''u2'', 0.1)]"
    by (simp add: example_defs has_required_fields_def required_fields_def py_get_def py_slice_def)
  with find_similar_users_target_missing_fields [OF h] h show ?thesis by simp
qed




section \<open>Properties of the cold-start test\<close>

text \<open>
  Claim C6, as stated, fails in one direction: a \<^verbatim>\<open>testHistory\<close> or
  \<^verbatim>\<open>learningProgress\<close> of the wrong shape does not by itself make the user a cold-start
  user.  It is replaced by an empty value, and the two length tests are then applied as
  usual.  A profile whose \<^verbatim>\<open>testHistory\<close> is \<^verbatim>\<open>null\<close> and whose \<^verbatim>\<open>learningProgress\<close>
  has three keys is malformed, yet \<^verbatim>\<open>is_cold_start_user\<close> returns \<^verbatim>\<open>False\<close>.
\<close>

theorem is_cold_start_user_malformed_counterexample:
  "malformed_profile busy_learner \<and> claimed_is_cold_start busy_learner
   \<and> \<not> is_cold_start_user busy_learner"
  by (simp add: busy_learner_def malformed_profile_def claimed_is_cold_start_def
      is_cold_start_user_def py_get_def dict_len_def dict_keys_def)

text \<open>
  Claim C6, amended.  \<^verbatim>\<open>is_cold_start_user\<close> returns true if and only if the profile
  is not a dictionary, or both the length of \<^verbatim>\<open>testHistory\<close> is under 2 and the number of
  keys of \<^verbatim>\<open>learningProgress\<close> is under 3, where a \<^verbatim>\<open>testHistory\<close> or
  \<^verbatim>\<open>learningProgress\<close> that is missing or of the wrong shape counts as of length zero.
  In particular it is true for a profile with empty \<^verbatim>\<open>testHistory\<close> and empty
  \<^verbatim>\<open>learningProgress\<close>, and for a profile that is not a dictionary.
\<close>

theorem is_cold_start_user_iff:
  "is_cold_start_user profile \<longleftrightarrow>
     \<not> is_dict profile \<or> (history_length profile < 2 \<and> progress_length profile < 3)"
  by (cases profile)
     (auto simp: is_cold_start_user_def history_length_def progress_length_def Let_def
                 dict_len_def dict_keys_def
           split: json.splits)

theorem is_cold_start_user_iff_witness:
  "is_cold_start_user (JDict [(''testHistory'', JList []), (''learningProgress'', JDict [])])
   \<and> is_cold_start_user (JList [])
   \<and> \<not> is_cold_start_user busy_learner"
  using is_cold_start_user_iff
          [of "JDict [(''testHistory'', JList []), (''learningProgress'', JDict [])]"]
        is_cold_start_user_iff [of "JList []"]
        is_cold_start_user_iff [of busy_learner]
  by (simp add: history_length_def progress_length_def py_get_def dict_len_def dict_keys_def
        busy_learner_def)

section \<open>Properties of the topic deficiency\<close>

lemma topic_stats_loop_find:
  "topic_stats_loop topic items desired_rate =
     (case find (topic_matches topic) items of
        None \<Rightarrow> Inr 0.5
      | Some item \<Rightarrow> entry_deficiency (fields_of item) desired_rate)"
proof (induction items)
  case Nil
  show ?case by simp
next
  case (Cons item items)
  then show ?case by (cases item) simp_all
qed

text \<open>
  Claim C7.  For every topic and every sequence of topic statistics,
  \<^verbatim>\<open>get_topic_deficiency\<close> returns exactly 0.5 when no entry matches the topic name.
  When the first matching entry carries the counts \<open>total_correct\<close> and
  \<open>total_incorrect\<close>, it returns 0.5 if they sum to zero, and
  \<open>max 0 (desired_rate - total_correct / (total_correct + total_incorrect))\<close> if the sum is
  positive.  The default of \<open>desired_rate\<close> is 0.8.
\<close>

theorem get_topic_deficiency_cases:
  "(find (topic_matches topic) items = None
      \<longrightarrow> get_topic_deficiency topic (JList items) desired_rate = Inr 0.5)
   \<and> (find (topic_matches topic) items = Some (JDict entry)
      \<and> num_of (py_get entry ''totalCorrect'' (JNum 0)) = Some total_correct
      \<and> num_of (py_get entry ''totalIncorrect'' (JNum 0)) = Some total_incorrect
      \<longrightarrow> (total_correct + total_incorrect = 0
             \<longrightarrow> get_topic_deficiency topic (JList items) desired_rate = Inr 0.5)
        \<and> (total_correct + total_incorrect > 0
             \<longrightarrow> get_topic_deficiency topic (JList items) desired_rate
                  = Inr (max 0 (desired_rate
                                 - total_correct / (total_correct + total_incorrect)))))
   \<and> default_desired_rate = 0.8"
  by (auto simp: get_topic_deficiency_def topic_stats_loop_find entry_deficiency_def Let_def
        default_desired_rate_def)

theorem get_topic_deficiency_cases_witness:
  "find (topic_matches (JStr ''listening'')) topic_stats_example = None
   \<and> get_topic_deficiency (JStr ''listening'') (JList topic_stats_example) default_desired_rate
       = Inr 0.5
   \<and> get_topic_deficiency (JStr ''reading'') (JList topic_stats_example) default_desired_rate
       = Inr 0.5
   \<and> get_topic_deficiency (JStr ''grammar'') (JList topic_stats_example) default_desired_rate
       = Inr 0.2"
proof -
  let ?reading = "[(''topicName'', JStr ''reading''), (''totalCorrect'', JNum 0),
                   (''totalIncorrect'', JNum 0)]"
  let ?grammar = "[(''topicName'', JStr ''grammar''), (''totalCorrect'', JNum 6),
                   (''totalIncorrect'', JNum 4)]"
  have a: "find (topic_matches (JStr ''listening'')) topic_stats_example = None"
    by (simp add: topic_stats_example_def py_get_def)
  have r: "find (topic_matches (JStr ''reading'')) topic_stats_example = Some (JDict ?reading)"
    by (simp add: topic_stats_example_def py_get_def)
  have g: "find (topic_matches (JStr ''grammar'')) topic_stats_example = Some (JDict ?grammar)"
    by (simp add: topic_stats_example_def py_get_def)
  from get_topic_deficiency_cases
         [where topic = "JStr ''listening''" and items = topic_stats_example
            and desired_rate = default_desired_rate] a
  have 1: "get_topic_deficiency (JStr ''listening'') (JList topic_stats_example)
             default_desired_rate = Inr 0.5"
    by simp
  from get_topic_deficiency_cases
         [where topic = "JStr ''reading''" and items = topic_stats_example
            and desired_rate = default_desired_rate and entry = ?reading
            and total_correct = 0 and total_incorrect = 0] r
  have 2: "get_topic_deficiency (JStr ''reading'') (JList topic_stats_example)
             default_desired_rate = Inr 0.5"
    by (simp add: py_get_def)
  from get_topic_deficiency_cases
         [where topic = "JStr ''grammar''" and items = topic_stats_example
            and desired_rate = default_desired_rate and entry = ?grammar
            and total_correct = 6 and total_incorrect = 4] g
  have 3: "get_topic_deficiency (JStr ''grammar'') (JList topic_stats_example)
             default_desired_rate = Inr 0.2"
    by (simp add: py_get_def default_desired_rate_def)
  from a 1 2 3 show ?thesis by simp
qed

section \<open>Properties of the collaborative score\<close>

lemma attempt_factor_le:
  assumes "normalized_score > 0.85" and "attempts \<ge> 3"
  shows "attempt_factor normalized_score attempts \<le> 0.95"
proof -
  have "attempt_factor normalized_score attempts
          = (if attempts \<le> 5 then 1 - 0.05 * (attempts - 2)
             else if attempts \<le> 6 then 1.3 - 0.15 * (attempts - 2) else 0.7)"
    using assms by (auto simp: attempt_factor_def Let_def min_def max_def field_simps)
  then show ?thesis using assms(2) by (simp split: if_splits)
qed

text \<open>
  Whatever the score and the number of attempts, the attempt factor stays between 0.4
  and 1.0.
\<close>

lemma attempt_factor_range:
  "0.4 \<le> attempt_factor normalized_score attempts
   \<and> attempt_factor normalized_score attempts \<le> 1"
proof (cases "normalized_score > 0.85 \<and> attempts \<ge> 3")
  case True
  then have "attempt_factor normalized_score attempts
          = (if attempts \<le> 5 then 1 - 0.05 * (attempts - 2)
             else if attempts \<le> 6 then 1.3 - 0.15 * (attempts - 2) else 0.7)"
    by (auto simp: attempt_factor_def Let_def min_def max_def field_simps)
  then show ?thesis using True by (auto simp: field_simps split: if_splits)
next
  case False
  then have "attempt_factor normalized_score attempts
          = (if attempts \<le> 2 then 1 else max 0.4 (1 - 0.15 * (attempts - 2)))"
    by (auto simp: attempt_factor_def Let_def)
  then show ?thesis by (simp add: max_def split: if_splits)
qed

text \<open>
  The collaborative score itself is not confined to the unit interval, but for another
  reason: \<^verbatim>\<open>avgScore\<close> is not checked against 990.  A neighbour of similarity 1 with an
  average score of 1980 on the candidate gives the score 2.
\<close>

lemma get_collaborative_score_out_of_range:
  "get_collaborative_score ''T1'' [(''u2'', 1)]
     (JList [JDict [(''userId'', JStr ''u2''),
                    (''testHistory'', JList [JDict [(''testId'', JStr ''T1''),
                                                    (''avgScore'', JNum 1980),
                                                    (''attempts'', JNum 1)]])]])
     ''test'' = Inr 2"
  by (simp add: get_collaborative_score_def neighbor_score_def neighbor_test_score_def
        record_score_def effective_score_def attempt_factor_def py_get_def py_div_def)

text \<open>
  Claim C1, amended.  For every neighbour test record whose normalized score
  \<open>avg_score / 990\<close> exceeds 0.85 and whose attempts are at least 3, the attempt factor
  with the mastery bonus is at most 0.95 (the penalty of 0.15 per attempt outweighs the
  bonus of 0.1 per attempt), so the effective score is at most 0.95 times the normalized
  score and stays strictly below it: the mastery bonus never lifts a score above its
  normalized value.
\<close>

theorem mastery_bonus_bounded:
  assumes "avg_score / 990 > 0.85" and "attempts \<ge> 3"
  shows "attempt_factor (avg_score / 990) attempts \<le> 0.95
       \<and> effective_score avg_score attempts \<le> 0.95 * (avg_score / 990)
       \<and> effective_score avg_score attempts < avg_score / 990"
proof -
  have f: "attempt_factor (avg_score / 990) attempts \<le> 0.95"
    using assms by (rule attempt_factor_le)
  have "(0::real) < 0.85" by simp
  from this assms(1) have p: "0 < avg_score / 990" by (rule less_trans)
  have e: "effective_score avg_score attempts
             = avg_score / 990 * attempt_factor (avg_score / 990) attempts"
    by (simp add: effective_score_def Let_def)
  have "avg_score / 990 * attempt_factor (avg_score / 990) attempts \<le> avg_score / 990 * 0.95"
    using f p by (intro mult_left_mono) simp_all
  then have 1: "effective_score avg_score attempts \<le> 0.95 * (avg_score / 990)"
    unfolding e by (simp add: mult.commute)
  have "0.95 * (avg_score / 990) < avg_score / 990" using p by simp
  with 1 f show ?thesis by linarith
qed

theorem mastery_bonus_bounded_witness:
  "(900::real) / 990 > 0.85 \<and> (3::real) \<ge> 3
   \<and> attempt_factor (900 / 990) 3 = 0.95
   \<and> effective_score 900 3 < 900 / 990"
proof -
  have h: "(900::real) / 990 > 0.85" "(3::real) \<ge> 3" by simp_all
  have "attempt_factor (900 / 990) 3 = 0.95" by (simp add: attempt_factor_def)
  with mastery_bonus_bounded [OF h] show ?thesis by simp
qed

text \<open>
  Claim C1, as stated, fails: there is no test record with a normalized score above 0.85
  and at least 3 attempts for which the attempt factor exceeds 1.0 or the effective score
  exceeds the normalized score.
\<close>

theorem mastery_bonus_counterexample:
  "\<not> (\<exists>avg_score attempts. avg_score / 990 > 0.85 \<and> attempts \<ge> 3
        \<and> (attempt_factor (avg_score / 990) attempts > 1
            \<or> effective_score avg_score attempts > avg_score / 990))"
proof
  assume "\<exists>avg_score attempts. avg_score / 990 > 0.85 \<and> attempts \<ge> 3
        \<and> (attempt_factor (avg_score / 990) attempts > 1
            \<or> effective_score avg_score attempts > avg_score / 990)"
  then obtain a n where h: "a / 990 > 0.85" "n \<ge> 3"
      "attempt_factor (a / 990) n > 1 \<or> effective_score a n > a / 990" by blast
  have f: "attempt_factor (a / 990) n \<le> 0.95"
    using h(1,2) by (rule attempt_factor_le)
  have "(0::real) < 0.85" by simp
  from this h(1) have p: "0 < a / 990" by (rule less_trans)
  have "a / 990 * attempt_factor (a / 990) n \<le> a / 990 * 0.95"
    using f p by (intro mult_left_mono) simp_all
  then have "effective_score a n \<le> 0.95 * (a / 990)"
    by (simp add: effective_score_def Let_def mult.commute)
  moreover have "0.95 * (a / 990) < a / 990" using p by simp
  ultimately show False using f h(3) by auto
qed

lemma test_history_loop_no_match:
  "\<not> list_ex (record_matches cid) th \<Longrightarrow> test_history_loop cid th = Inr None"
proof (induction th)
  case Nil
  show ?case by simp
next
  case (Cons r th)
  then show ?case by (cases r) auto
qed

lemma neighbor_score_no_interaction:
  assumes "\<not> has_interaction ty cid p" and "ty = ''lecture'' \<longrightarrow> items_iterable cid p"
  shows "neighbor_score ty cid p = Inr None"
proof (cases "ty = ''test''")
  case True
  with assms(1) show ?thesis
    by (auto simp: neighbor_score_def neighbor_test_score_def has_interaction_def taken_test_def
          test_history_loop_no_match split: json.splits)
next
  case False
  show ?thesis
  proof (cases "ty = ''lecture''")
    case nl: False
    with False show ?thesis by (simp add: neighbor_score_def)
  next
    case True
    show ?thesis
    proof (cases "py_get p ''learningProgress'' (JDict [])")
      case (JDict lp)
      from assms(2) True JDict obtain pd where pd: "progress_data_of cid lp = Inr pd"
        by (auto simp: items_iterable_def progress_data_of_def split: option.splits sum.splits)
      from assms(1) True JDict pd have "\<not> (truthy pd \<and> (is_dict pd \<or> num_of pd \<noteq> None))"
        by (simp add: has_interaction_def started_lecture_def)
      then have "completion_of pd = Inr None"
        by (cases pd) (auto simp: completion_of_def)
      with True JDict pd show ?thesis
        by (simp add: neighbor_score_def neighbor_lecture_score_def)
    qed (simp_all add: True neighbor_score_def neighbor_lecture_score_def)
  qed
qed

lemma neighbors_loop_unchanged:
  assumes "\<forall>(uid, similarity)\<in>set sims. \<forall>p. map_of m (JStr uid) = Some p
             \<longrightarrow> neighbor_score ty cid p = Inr None"
  shows "neighbors_loop ty cid m sims score matched = Inr (score, matched)"
  using assms
proof (induction sims)
  case Nil
  show ?case by simp
next
  case (Cons a sims)
  obtain uid similarity where a: "a = (uid, similarity)" by (cases a)
  from Cons show ?case by (auto simp: a split: option.splits)
qed

lemma user_data_map_loop_lookup:
  "user_data_map_loop users m0 = Inr m \<Longrightarrow>
     map_of m (JStr uid) =
       (case neighbor_profile users uid of Some p \<Rightarrow> Some p | None \<Rightarrow> map_of m0 (JStr uid))"
proof (induction users arbitrary: m0)
  case Nil
  then show ?case by (simp add: neighbor_profile_def)
next
  case (Cons u users)
  show ?case
  proof (cases u)
    case (JDict d)
    show ?thesis
    proof (cases "map_of d ''userId''")
      case None
      with Cons JDict show ?thesis by (simp add: neighbor_profile_def)
    next
      case (Some k)
      with Cons.prems JDict have h: "hashable k"
        and l: "user_data_map_loop users ((k, d) # m0) = Inr m"
        by (auto split: if_splits)
      from Cons.IH [OF l] Some JDict show ?thesis
        by (auto simp: neighbor_profile_def split: list.splits option.splits)
    qed
  qed (use Cons in \<open>simp_all add: neighbor_profile_def\<close>)
qed

lemma user_data_map_loop_total:
  "\<forall>u\<in>set users. hashable (user_id_of u) \<Longrightarrow> \<exists>m. user_data_map_loop users m0 = Inr m"
proof (induction users arbitrary: m0)
  case Nil
  show ?case by simp
next
  case (Cons u users)
  then show ?case by (cases u) (auto simp: py_get_def split: option.splits)
qed

text \<open>
  Claim C8 holds of peer data of the expected shape (see
  \<open>get_collaborative_score_no_match\<close> below), but the code breaks it on a shape it does
  not check.  The test branch verifies that a neighbour's \<^verbatim>\<open>testHistory\<close> is a list
  before iterating over it; the lecture branch iterates over
  \<^verbatim>\<open>learning_progress.get("items", [])\<close> unchecked.  A neighbour whose learning
  progress holds \<^verbatim>\<open>"items": null\<close> has no interaction with lecture \<^verbatim>\<open>L1\<close>, yet the
  call raises \<^verbatim>\<open>TypeError\<close> instead of returning 0.
\<close>

theorem get_collaborative_score_raises_on_null_items:
  "neighbor_profile [peer_with_null_items] ''u2'' = Some (fields_of peer_with_null_items)
   \<and> \<not> has_interaction ''lecture'' ''L1'' (fields_of peer_with_null_items)
   \<and> get_collaborative_score ''L1'' [(''u2'', 0.9)] (JList [peer_with_null_items]) ''lecture''
       = Inl TypeError"
  by (simp add: peer_with_null_items_def neighbor_profile_def has_interaction_def
        started_lecture_def progress_data_of_def py_get_def get_collaborative_score_def
        neighbor_score_def neighbor_lecture_score_def)

text \<open>
  With peer data of the expected shape the property holds: for every candidate id,
  candidate type, neighbour list and profile list in which every \<^verbatim>\<open>userId\<close> is
  hashable and, for a lecture candidate, the nested \<^verbatim>\<open>items\<close> of each neighbour's
  learning progress is iterable where the scan reads it, if no neighbour has a matching
  interaction with the candidate then the collaborative score is exactly 0 and no error
  is raised (the final division is by \<open>max 1 matched\<close>).
\<close>

theorem get_collaborative_score_no_match:
  assumes ids: "\<forall>u\<in>set users. hashable (user_id_of u)"
    and nomatch: "\<forall>(uid, similarity)\<in>set similar_users. \<forall>profile.
            neighbor_profile users uid = Some profile
            \<longrightarrow> \<not> has_interaction candidate_type candidate_id profile
                \<and> (candidate_type = ''lecture'' \<longrightarrow> items_iterable candidate_id profile)"
  shows "get_collaborative_score candidate_id similar_users (JList users) candidate_type = Inr 0"
proof -
  from ids obtain m where m: "user_data_map_loop users [] = Inr m"
    using user_data_map_loop_total by blast
  have "\<forall>(uid, similarity)\<in>set similar_users. \<forall>p. map_of m (JStr uid) = Some p
             \<longrightarrow> neighbor_score candidate_type candidate_id p = Inr None"
    using nomatch user_data_map_loop_lookup [OF m]
    by (auto intro!: neighbor_score_no_interaction split: option.splits)
  then have "neighbors_loop candidate_type candidate_id m similar_users 0 0 = Inr (0, 0)"
    by (rule neighbors_loop_unchanged)
  with m show ?thesis by (simp add: get_collaborative_score_def py_div_def)
qed

theorem get_collaborative_score_no_match_witness:
  "hashable (user_id_of peer_with_history)
   \<and> neighbor_profile [peer_with_history] ''u2'' = Some (fields_of peer_with_history)
   \<and> \<not> has_interaction ''test'' ''T2'' (fields_of peer_with_history)
   \<and> get_collaborative_score ''T2'' [(''u2'', 0.9)] (JList [peer_with_history]) ''test'' = Inr 0
   \<and> \<not> has_interaction ''lecture'' ''L1'' (fields_of peer_with_history)
   \<and> items_iterable ''L1'' (fields_of peer_with_history)
   \<and> get_collaborative_score ''L1'' [(''u2'', 0.9)] (JList [peer_with_history]) ''lecture''
       = Inr 0"
proof -
  have h: "hashable (user_id_of peer_with_history)"
    "neighbor_profile [peer_with_history] ''u2'' = Some (fields_of peer_with_history)"
    "\<not> has_interaction ''test'' ''T2'' (fields_of peer_with_history)"
    "\<not> has_interaction ''lecture'' ''L1'' (fields_of peer_with_history)"
    "items_iterable ''L1'' (fields_of peer_with_history)"
    by (simp_all add: peer_with_history_def neighbor_profile_def has_interaction_def
          taken_test_def started_lecture_def progress_data_of_def items_iterable_def py_get_def)
  from get_collaborative_score_no_match
         [of "[peer_with_history]" "[(''u2'', 0.9)]" "''test''" "''T2''"]
       get_collaborative_score_no_match
         [of "[peer_with_history]" "[(''u2'', 0.9)]" "''lecture''" "''L1''"] h
  show ?thesis by simp
qed

section \<open>Properties of the cold-start recommenders\<close>

lemma err_map_Inr_set:
  "err_map f xs = Inr ys \<Longrightarrow> y \<in> set ys \<Longrightarrow> \<exists>x\<in>set xs. f x = Inr y"
proof (induction xs arbitrary: ys)
  case Nil
  then show ?case by simp
next
  case (Cons x xs)
  then show ?case by (auto split: sum.splits)
qed

lemma err_map_Inr_image:
  "err_map f xs = Inr ys \<Longrightarrow> x \<in> set xs \<Longrightarrow> \<exists>y\<in>set ys. f x = Inr y"
proof (induction xs arbitrary: ys)
  case Nil
  then show ?case by simp
next
  case (Cons x xs)
  then show ?case by (auto split: sum.splits)
qed

lemma exclude_known_set:
  "exclude_known key known xs = Inr ys \<Longrightarrow> x \<in> set ys \<Longrightarrow>
     x \<in> set xs \<and> (\<exists>v. py_subscript x key = Inr v \<and> \<not> py_in v known)"
proof (induction xs arbitrary: ys)
  case Nil
  then show ?case by simp
next
  case (Cons a xs)
  then show ?case by (auto split: sum.splits if_splits)
qed

lemma score_test_testId:
  "score_test cands td t = Inr r \<Longrightarrow> py_subscript t ''testId'' = Inr (st_testId r)"
  by (auto simp: score_test_def Let_def split: sum.splits option.splits if_splits)

lemma py_in_iff: "py_in x xs \<longleftrightarrow> (\<exists>y\<in>set xs. py_eq x y)"
  by (simp add: py_in_def list_ex_iff)

lemmas cold_start_defs =
  recommend_cold_start_tests_def completed_test_ids_def available_tests_def
  target_difficulty_of_def score_test_def max_attempts_of_def py_get_def py_in_def
  sort_desc_def py_slice_def Let_def

text \<open>
  Claim C9.  Whenever \<^verbatim>\<open>recommend_cold_start_tests\<close> returns a list, no entry of it has
  a \<^verbatim>\<open>testId\<close> equal to the \<^verbatim>\<open>testId\<close> of a record of the user's test history:
  attempted tests are filtered out of the candidates before any score is computed.
\<close>

theorem recommend_cold_start_tests_excludes_history:
  assumes ret: "recommend_cold_start_tests (JDict profile) test_candidates limit = Inr recs"
    and hist: "map_of profile ''testHistory'' = Some (JList history)"
    and taken: "JDict taken \<in> set history" "map_of taken ''testId'' = Some tid"
    and r: "r \<in> set recs"
  shows "\<not> py_eq (st_testId r) tid \<and> st_testId r \<noteq> tid"
proof -
  from ret obtain completed available td scored where
    c: "completed_test_ids (JDict profile) = Inr completed"
    and a: "available_tests completed test_candidates = Inr available"
    and s: "err_map (score_test test_candidates td) available = Inr scored"
    and recs: "recs = py_slice limit (sort_desc st_score scored)"
    by (auto simp: recommend_cold_start_tests_def split: sum.splits)
  from c hist have "err_map (\<lambda>item. py_subscript item ''testId'') history = Inr completed"
    by (simp add: completed_test_ids_def py_get_def)
  from err_map_Inr_image [OF this taken(1)] taken(2) have tid: "tid \<in> set completed"
    by auto
  from r recs have "r \<in> set scored"
    using set_py_slice set_sort_desc by fastforce
  from err_map_Inr_set [OF s this] obtain t where
    t: "t \<in> set available" "score_test test_candidates td t = Inr r" by blast
  from exclude_known_set [OF a [unfolded available_tests_def] t(1)] score_test_testId [OF t(2)]
  have "\<not> py_in (st_testId r) completed" by auto
  with tid have "\<not> py_eq (st_testId r) tid" by (auto simp: py_in_iff)
  then show ?thesis using py_eq_refl by metis
qed

theorem recommend_cold_start_tests_excludes_history_witness:
  "recommend_cold_start_tests new_user test_catalog 5 = Inr
     [\<lparr>st_id = JStr ''T3'', st_name = JStr ''Mock 3'', st_score = 91 / 100,
        st_already_taken = False, st_attempts = 0, st_avg_score = 0, st_difficulty = JNum 9,
        st_topics = JList [], st_testId = JStr ''T3''\<rparr>,
      \<lparr>st_id = JStr ''T2'', st_name = JStr ''Mock 2'', st_score = 31 / 50,
        st_already_taken = False, st_attempts = 0, st_avg_score = 0, st_difficulty = JNum 5,
        st_topics = JList [JStr ''reading''], st_testId = JStr ''T2''\<rparr>]
   \<and> \<not> py_eq (JStr ''T3'') (JStr ''T1'') \<and> \<not> py_eq (JStr ''T2'') (JStr ''T1'')"
proof -
  let ?r3 = "\<lparr>st_id = JStr ''T3'', st_name = JStr ''Mock 3'', st_score = 91 / 100,
        st_already_taken = False, st_attempts = 0, st_avg_score = 0, st_difficulty = JNum 9,
        st_topics = JList [], st_testId = JStr ''T3''\<rparr>"
  let ?r2 = "\<lparr>st_id = JStr ''T2'', st_name = JStr ''Mock 2'', st_score = 31 / 50,
        st_already_taken = False, st_attempts = 0, st_avg_score = 0, st_difficulty = JNum 5,
        st_topics = JList [JStr ''reading''], st_testId = JStr ''T2''\<rparr>"
  let ?taken = "[(''testId'', JStr ''T1''), (''attempts'', JNum 1), (''avgScore'', JNum 500)]"
  have ret: "recommend_cold_start_tests (JDict (fields_of new_user)) test_catalog 5
               = Inr [?r3, ?r2]"
    by (simp add: new_user_def test_catalog_def cold_start_defs)
  have hist: "map_of (fields_of new_user) ''testHistory'' = Some (JList [JDict ?taken])"
    by (simp add: new_user_def)
  have taken: "JDict ?taken \<in> set [JDict ?taken]" "map_of ?taken ''testId'' = Some (JStr ''T1'')"
    by simp_all
  have 3: "\<not> py_eq (st_testId ?r3) (JStr ''T1'')"
    using recommend_cold_start_tests_excludes_history [OF ret hist taken, of ?r3] by simp
  have 2: "\<not> py_eq (st_testId ?r2) (JStr ''T1'')"
    using recommend_cold_start_tests_excludes_history [OF ret hist taken, of ?r2] by simp
  have "new_user = JDict (fields_of new_user)" by (simp add: new_user_def)
  with ret 3 2 show ?thesis by simp
qed

text \<open>
  Claim C3 does not hold of the cold-start path.  \<^verbatim>\<open>is_cold_start_user\<close> replaces a
  \<^verbatim>\<open>testHistory\<close> or \<^verbatim>\<open>learningProgress\<close> of the wrong shape by an empty value and
  sends the user to the cold-start recommenders, which read the same fields without any
  check: a \<^verbatim>\<open>null\<close> test history raises \<^verbatim>\<open>TypeError\<close> in
  \<^verbatim>\<open>recommend_cold_start_tests\<close>, a \<^verbatim>\<open>null\<close> learning progress raises
  \<^verbatim>\<open>AttributeError\<close> in \<^verbatim>\<open>recommend_cold_start_lectures\<close>, and a profile without
  \<^verbatim>\<open>userId\<close> (the empty profile of an unknown user) raises \<^verbatim>\<open>KeyError\<close> at the first
  line of \<^verbatim>\<open>generate_cold_start_recommendations\<close>.
\<close>

theorem cold_start_raises_on_malformed_profile:
  "is_cold_start_user null_history_user
   \<and> recommend_cold_start_tests null_history_user test_catalog 5 = Inl TypeError
   \<and> generate_cold_start_recommendations null_history_user test_catalog [] 5 = Inl TypeError
   \<and> is_cold_start_user null_progress_user
   \<and> recommend_cold_start_lectures null_progress_user [] 5 = Inl AttributeError
   \<and> is_cold_start_user (JDict [])
   \<and> generate_cold_start_recommendations (JDict []) [] [] 5 = Inl KeyError"
  by (simp add: null_history_user_def null_progress_user_def is_cold_start_user_def
      recommend_cold_start_tests_def recommend_cold_start_lectures_def
      generate_cold_start_recommendations_def completed_test_ids_def started_lecture_ids_def
      py_get_def dict_len_def dict_keys_def)

end
